theory Spec2Isabelle
  imports Complex_Main
begin

section \<open>Values and errors\<close>

text \<open>
  A numeric field of a document is a JavaScript number that may be missing
  (\<open>undefined\<close> or \<open>null\<close>): \<open>rat option\<close>, with \<open>None\<close> for the missing field.
  Numbers are exact rationals here; the rounding of IEEE doubles is not part of
  the model.  Identifiers and SKUs are strings.
\<close>

type_synonym num = rat

datatype error =
    AppError string nat     \<comment> \<open>\<open>new AppError(message, statusCode)\<close>\<close>
  | StatusError nat string  \<comment> \<open>\<open>res.status(code); throw new Error(message)\<close>\<close>
  | TypeError string        \<comment> \<open>property read on \<open>null\<close>/\<open>undefined\<close>\<close>

text \<open>\<open>a || b\<close> on two possibly missing numbers: \<open>a\<close> when it is truthy
  (present and not zero), otherwise \<open>b\<close>.\<close>

fun jsOr :: "num option \<Rightarrow> num option \<Rightarrow> num option" where
  "jsOr (Some v) b = (if v \<noteq> 0 then Some v else b)"
| "jsOr None b = b"

text \<open>\<open>a || n\<close> where \<open>n\<close> is a number literal.\<close>

fun orNum :: "num option \<Rightarrow> num \<Rightarrow> num" where
  "orNum (Some v) n = (if v \<noteq> 0 then v else n)"
| "orNum None n = n"

section \<open>Products, variants, options and cart items\<close>

text \<open>
  Only the fields the controllers compute with are kept; images and the
  colour, storage and RAM attributes are copied through by the source and are
  left out.
\<close>

record variantOption =
  opt_sku :: string
  opt_value :: "string option"
  opt_price :: "num option"
  opt_priceAfterDiscount :: "num option"
  opt_stock :: "num option"

record variant =
  variant_name :: string
  variant_options :: "variantOption list option"

record product =
  product_id :: string
  product_name :: string
  product_variants :: "variant list option"

text \<open>\<open>item.product\<close> is the populated product, \<open>None\<close> when population
  found no document.\<close>

record cartItem =
  item_id :: string
  item_product :: "product option"
  item_sku :: string
  item_quantity :: num
  item_price :: "num option"
  item_notes :: "string option"

section \<open>Variant resolution\<close>

text \<open>\<open>variant.options?.find((opt) => opt.sku === sku)\<close>\<close>

definition findInOptions :: "variantOption list option \<Rightarrow> string \<Rightarrow> variantOption option" where
  "findInOptions os s =
     (case os of None \<Rightarrow> None | Some xs \<Rightarrow> find (\<lambda>opt. opt_sku opt = s) xs)"

text \<open>
  The loop over the variants: the first variant in which \<open>find\<close> succeeds ends
  the loop (\<open>break\<close>), and \<open>matchedVariant\<close> is that variant.
\<close>

fun matchInVariants :: "variant list \<Rightarrow> string \<Rightarrow> (variantOption \<times> variant) option" where
  "matchInVariants [] s = None"
| "matchInVariants (v # vs) s =
     (case findInOptions (variant_options v) s of
        Some opt \<Rightarrow> Some (opt, v)
      | None \<Rightarrow> matchInVariants vs s)"

text \<open>\<open>product?.variants || []\<close>\<close>

definition variantsOrEmpty :: "product option \<Rightarrow> variant list" where
  "variantsOrEmpty p =
     (case p of None \<Rightarrow> []
      | Some pr \<Rightarrow> (case product_variants pr of None \<Rightarrow> [] | Some vs \<Rightarrow> vs))"

definition matchOption :: "product option \<Rightarrow> string \<Rightarrow> (variantOption \<times> variant) option" where
  "matchOption p s = matchInVariants (variantsOrEmpty p) s"

definition matchedOption :: "product option \<Rightarrow> string \<Rightarrow> variantOption option" where
  "matchedOption p s = map_option fst (matchOption p s)"

text \<open>All options of a product, variant by variant, each variant's options in
  stored order.\<close>

definition optionsOf :: "variant \<Rightarrow> variantOption list" where
  "optionsOf v = (case variant_options v of None \<Rightarrow> [] | Some xs \<Rightarrow> xs)"

definition allOptions :: "product option \<Rightarrow> variantOption list" where
  "allOptions p = concat (map optionsOf (variantsOrEmpty p))"

section \<open>Price reconciliation\<close>

text \<open>\<open>matchedOption.priceAfterDiscount || matchedOption.price || 0\<close>\<close>

definition optionPriceOrZero :: "variantOption \<Rightarrow> num" where
  "optionPriceOrZero opt = orNum (jsOr (opt_priceAfterDiscount opt) (opt_price opt)) 0"

text \<open>
  The price block of the cart enumeration:
  \<^verbatim>\<open>
  let price = item.price || 0;
  if (price === 0 && matchedOption) {
    price = matchedOption.priceAfterDiscount || matchedOption.price || 0;
    if (price > 0) { needsUpdate = true; }
  }
  \<close>
  The result is the price and whether this item executed \<open>needsUpdate = true\<close>.
\<close>

definition reconcile :: "cartItem \<Rightarrow> variantOption option \<Rightarrow> num \<times> bool" where
  "reconcile item mo =
     (let price = orNum (item_price item) 0 in
      case mo of
        Some opt \<Rightarrow>
          (if price = 0
           then (let price' = optionPriceOrZero opt in (price', 0 < price'))
           else (price, False))
      | None \<Rightarrow> (price, False))"

text \<open>
  The item step of \<open>fixCartPrices\<close>:
  \<^verbatim>\<open>
  if ((item.price === 0 || !item.price) && matchedOption) {
    const newPrice = matchedOption.priceAfterDiscount || matchedOption.price || 0;
    if (newPrice > 0) { item.price = newPrice; cartNeedsUpdate = true; updatedItems++; }
  }
  \<close>
  The result is the item after the step and whether it was updated.
\<close>

definition priceMissing :: "num option \<Rightarrow> bool" where
  "priceMissing p = (p = Some 0 \<or> (case p of None \<Rightarrow> True | Some v \<Rightarrow> v = 0))"

definition fixItem :: "cartItem \<Rightarrow> variantOption option \<Rightarrow> cartItem \<times> bool" where
  "fixItem item mo =
     (case mo of
        Some opt \<Rightarrow>
          (if priceMissing (item_price item)
           then (let newPrice = optionPriceOrZero opt in
                 if 0 < newPrice then (item\<lparr>item_price := Some newPrice\<rparr>, True)
                 else (item, False))
           else (item, False))
      | None \<Rightarrow> (item, False))"


section \<open>Cart enumeration\<close>


record enrichedItem =
  e_id :: string
  e_productId :: string
  e_sku :: string
  e_quantity :: num
  e_notes :: "string option"
  e_productName :: string
  e_price :: num
  e_totalPrice :: num
  e_variantLabel :: "string option"
  e_variantStock :: "num option"
  e_variantType :: "string option"




text \<open>
  One pass of the item loop.  The price is reconciled first; the read of
  \<open>product.images\<close> that follows has no \<open>?.\<close> and throws when the product is
  missing.
\<close>

definition enrichItem :: "cartItem \<Rightarrow> error + (enrichedItem \<times> bool)" where
  "enrichItem item =
     (let m = matchOption (item_product item) (item_sku item);
          mo = map_option fst m;
          mv = map_option snd m;
          (price, marks) = reconcile item mo;
          totalPrice = price * item_quantity item
      in case item_product item of
           None \<Rightarrow> Inl (TypeError ''Cannot read properties of null (reading images)'')
         | Some product \<Rightarrow>
             Inr (\<lparr> e_id = item_id item,
                    e_productId = product_id product,
                    e_sku = item_sku item,
                    e_quantity = item_quantity item,
                    e_notes = item_notes item,
                    e_productName = product_name product,
                    e_price = price,
                    e_totalPrice = totalPrice,
                    e_variantLabel = Option.bind mo opt_value,
                    e_variantStock = Option.bind mo opt_stock,
                    e_variantType = map_option variant_name mv \<rparr>, marks))"














section \<open>Orders\<close>

record orderItem =
  oi_product :: string
  oi_sku :: string
  oi_quantity :: num
  oi_price :: "num option"

text \<open>The status fields are strings, as in the documents; timestamps are
  milliseconds and \<open>Date.now()\<close> is a parameter of the handlers that read it.\<close>

record order =
  order_id :: string
  order_user :: string
  order_items :: "orderItem list"
  order_status :: string
  order_paymentStatus :: string
  order_isPaid :: bool
  order_paidAt :: "nat option"
  order_isDelivered :: bool
  order_deliveredAt :: "nat option"
  order_notes :: "string option"

definition validStatuses :: "string list" where
  "validStatuses = [''pending'', ''processing'', ''shipped'', ''delivered'', ''cancelled'']"

definition validPaymentStatuses :: "string list" where
  "validPaymentStatuses = [''pending'', ''paid'', ''failed'', ''refunded'']"

text \<open>
  The order collection is a map from identifiers to documents:
  \<open>Order.findById(id)\<close> is the lookup and \<open>order.save()\<close> stores the whole
  document under its identifier.  A handler returns what it answers and the
  collection it leaves.
\<close>

type_synonym orderStore = "string \<rightharpoonup> order"

datatype response = OrderJson order | MessageJson string

type_synonym outcome = "(error + response) \<times> orderStore"

definition saveOrder :: "string \<Rightarrow> order \<Rightarrow> orderStore \<Rightarrow> orderStore" where
  "saveOrder oid ord store = store(oid \<mapsto> ord)"

definition updateOrderToPaid :: "string \<Rightarrow> orderStore \<Rightarrow> outcome" where
  "updateOrderToPaid oid store =
     (case store oid of
        None \<Rightarrow> (Inl (AppError ''Order not found'' 404), store)
      | Some ord \<Rightarrow>
          (let ord' = ord\<lparr> order_isPaid := True, order_paymentStatus := ''paid'',
                            order_status := ''processing'' \<rparr>
           in (Inr (OrderJson ord'), saveOrder oid ord' store)))"

definition updateOrderToDelivered :: "nat \<Rightarrow> string \<Rightarrow> orderStore \<Rightarrow> outcome" where
  "updateOrderToDelivered now oid store =
     (case store oid of
        None \<Rightarrow> (Inl (AppError ''Order not found'' 404), store)
      | Some ord \<Rightarrow>
          (let ord' = ord\<lparr> order_isDelivered := True, order_deliveredAt := Some now,
                            order_status := ''delivered'' \<rparr>
           in (Inr (OrderJson ord'), saveOrder oid ord' store)))"

text \<open>
  \<^verbatim>\<open>
  const { status } = req.body;
  const order = await Order.findById(req.params.id);
  if (!order) { res.status(404); throw new Error("Order not found"); }
  order.status = status;
  const updatedOrder = await order.save();
  \<close>
\<close>

definition updateOrderStatus :: "string \<Rightarrow> string \<Rightarrow> orderStore \<Rightarrow> outcome" where
  "updateOrderStatus status oid store =
     (case store oid of
        None \<Rightarrow> (Inl (StatusError 404 ''Order not found''), store)
      | Some ord \<Rightarrow>
          (let ord' = ord\<lparr> order_status := status \<rparr>
           in (Inr (OrderJson ord'), saveOrder oid ord' store)))"

text \<open>
  \<^verbatim>\<open>
  order.isPaid = true;
  order.paidAt = new Date();
  order.paymentStatus = "paid";
  await order.save();
  \<close>
\<close>

definition markOrderAsPaid :: "nat \<Rightarrow> string \<Rightarrow> orderStore \<Rightarrow> outcome" where
  "markOrderAsPaid now oid store =
     (case store oid of
        None \<Rightarrow> (Inl (AppError ''Order not found'' 404), store)
      | Some ord \<Rightarrow>
          (let ord' = ord\<lparr> order_isPaid := True, order_paidAt := Some now,
                            order_paymentStatus := ''paid'' \<rparr>
           in (Inr (OrderJson ord'), saveOrder oid ord' store)))"

text \<open>\<open>cancelOrder\<close>: the three checks in the order of the source, then the
  write.  \<open>reqUser\<close> is \<open>req.user._id\<close>.\<close>

definition cancelOrder :: "string \<Rightarrow> string \<Rightarrow> orderStore \<Rightarrow> outcome" where
  "cancelOrder reqUser oid store =
     (case store oid of
        None \<Rightarrow> (Inl (StatusError 404 ''Order not found''), store)
      | Some ord \<Rightarrow>
          if order_user ord \<noteq> reqUser
          then (Inl (StatusError 403 ''Not authorized to cancel this order''), store)
          else if order_status ord \<noteq> ''pending''
          then (Inl (StatusError 400 ''Can only cancel pending orders''), store)
          else (Inr (MessageJson ''Order cancelled successfully''),
                saveOrder oid (ord\<lparr> order_status := ''cancelled'' \<rparr>) store))"

definition deleteOrder :: "string \<Rightarrow> orderStore \<Rightarrow> outcome" where
  "deleteOrder oid store =
     (case store oid of
        None \<Rightarrow> (Inl (StatusError 404 ''Order not found''), store)
      | Some ord \<Rightarrow> (Inr (MessageJson ''Order deleted successfully''), store(oid := None)))"

text \<open>
  \<^verbatim>\<open>
  if (!validPaymentStatuses.includes(paymentStatus)) {
    return next(new AppError("Invalid payment status", 400));
  }
  ...
  order.paymentStatus = paymentStatus;
  if (paymentStatus === "paid") {
    order.status = "processing"; order.isPaid = true; order.paidAt = Date.now();
  }
  const updatedOrder = await order.save();
  \<close>
\<close>

definition updatePaymentStatus :: "nat \<Rightarrow> string \<Rightarrow> string \<Rightarrow> orderStore \<Rightarrow> outcome" where
  "updatePaymentStatus now paymentStatus oid store =
     (if paymentStatus \<notin> set validPaymentStatuses
      then (Inl (AppError ''Invalid payment status'' 400), store)
      else (case store oid of
              None \<Rightarrow> (Inl (AppError ''Order not found'' 404), store)
            | Some ord \<Rightarrow>
                (let ord1 = ord\<lparr> order_paymentStatus := paymentStatus \<rparr>;
                     ord' = (if paymentStatus = ''paid''
                             then ord1\<lparr> order_status := ''processing'', order_isPaid := True,
                                        order_paidAt := Some now \<rparr>
                             else ord1)
                 in (Inr (OrderJson ord'), saveOrder oid ord' store))))"

definition updateOrderNotes ::
  "string \<Rightarrow> string \<Rightarrow> string option \<Rightarrow> string \<Rightarrow> orderStore \<Rightarrow> outcome" where
  "updateOrderNotes reqUser role notes oid store =
     (case store oid of
        None \<Rightarrow> (Inl (AppError ''Order not found'' 404), store)
      | Some ord \<Rightarrow>
          if order_user ord \<noteq> reqUser \<and> role \<noteq> ''admin''
          then (Inl (AppError ''Not authorized to update this order'' 403), store)
          else (let ord' = ord\<lparr> order_notes := notes \<rparr>
                in (Inr (OrderJson ord'), saveOrder oid ord' store)))"

text \<open>The status of the stored order, \<open>None\<close> when there is no such order.\<close>

definition statusOf :: "orderStore \<Rightarrow> string \<Rightarrow> string option" where
  "statusOf store oid = map_option order_status (store oid)"

section \<open>Order creation\<close>













section \<open>Sample documents\<close>

text \<open>
  Concrete documents on which the handlers are run below: a product whose SKU
  \<open>A1\<close> occurs in two variants, a cart with one item to repair and one item
  with a stored price and an unknown SKU, and three orders of one user.
\<close>

definition optA1 :: variantOption where
  "optA1 = \<lparr> opt_sku = ''A1'', opt_value = Some ''128GB'', opt_price = Some 60,
             opt_priceAfterDiscount = Some 50, opt_stock = Some 5 \<rparr>"

definition optA1dup :: variantOption where
  "optA1dup = \<lparr> opt_sku = ''A1'', opt_value = Some ''Black'', opt_price = Some 99,
                opt_priceAfterDiscount = None, opt_stock = Some 1 \<rparr>"

definition optB1 :: variantOption where
  "optB1 = \<lparr> opt_sku = ''B1'', opt_value = Some ''64GB'', opt_price = Some 70,
             opt_priceAfterDiscount = Some 0, opt_stock = Some 0 \<rparr>"

definition sampleProduct :: product where
  "sampleProduct =
     \<lparr> product_id = ''p1'', product_name = ''Phone'',
       product_variants =
         Some [\<lparr> variant_name = ''Storage'', variant_options = Some [optB1, optA1] \<rparr>,
               \<lparr> variant_name = ''Color'', variant_options = Some [optA1dup] \<rparr>] \<rparr>"

definition itemA1 :: cartItem where
  "itemA1 = \<lparr> item_id = ''i1'', item_product = Some sampleProduct, item_sku = ''A1'',
              item_quantity = 2, item_price = Some 0, item_notes = None \<rparr>"

definition itemA2 :: cartItem where
  "itemA2 = \<lparr> item_id = ''i2'', item_product = Some sampleProduct, item_sku = ''A2'',
              item_quantity = 1, item_price = Some 30, item_notes = None \<rparr>"


definition optNoPrice :: variantOption where
  "optNoPrice = \<lparr> opt_sku = ''N1'', opt_value = None, opt_price = None,
                  opt_priceAfterDiscount = None, opt_stock = None \<rparr>"

definition sampleOrder :: order where
  "sampleOrder =
     \<lparr> order_id = ''o1'', order_user = ''alice'', order_items = [],
       order_status = ''pending'', order_paymentStatus = ''pending'', order_isPaid = False,
       order_paidAt = None, order_isDelivered = False, order_deliveredAt = None,
       order_notes = None \<rparr>"

definition sampleStore :: orderStore where
  "sampleStore =
     [''o1'' \<mapsto> sampleOrder,
      ''o2'' \<mapsto> sampleOrder\<lparr> order_id := ''o2'', order_status := ''delivered'' \<rparr>,
      ''o3'' \<mapsto> sampleOrder\<lparr> order_id := ''o3'', order_status := ''processing'' \<rparr>]"








section \<open>Variant resolution: properties\<close>

lemma find_concat_step:
  "find P (xs @ ys) = (case find P xs of Some x \<Rightarrow> Some x | None \<Rightarrow> find P ys)"
  by (induction xs) auto

lemma matchInVariants_find:
  "map_option fst (matchInVariants vs s) = find (\<lambda>opt. opt_sku opt = s) (concat (map optionsOf vs))"
proof (induction vs)
  case Nil
  show ?case by simp
next
  case (Cons v vs)
  show ?case
  proof (cases "variant_options v")
    case None
    with Cons show ?thesis by (simp add: findInOptions_def optionsOf_def)
  next
    case (Some xs)
    with Cons show ?thesis
      by (simp add: findInOptions_def optionsOf_def find_concat_step split: option.splits)
  qed
qed

text \<open>
  Claim C3.  For every product and every target SKU, the resolver returns the
  first option whose SKU equals the target, going through the variants in
  stored order and through each variant's options in stored order.  When no
  option matches the result is \<open>None\<close> (not an error), and with duplicate SKUs
  the earliest position wins: every option before the returned one has another
  SKU.
\<close>

theorem matchedOption_first_match:
  "matchedOption p s = find (\<lambda>opt. opt_sku opt = s) (allOptions p)
   \<and> ((matchedOption p s = None) = (\<forall>opt \<in> set (allOptions p). opt_sku opt \<noteq> s))
   \<and> ((matchedOption p s = Some opt) =
        (\<exists>i < length (allOptions p). allOptions p ! i = opt \<and> opt_sku opt = s
            \<and> (\<forall>j < i. opt_sku (allOptions p ! j) \<noteq> s)))"
proof -
  have eq: "matchedOption p s = find (\<lambda>opt. opt_sku opt = s) (allOptions p)"
    by (simp add: matchedOption_def matchOption_def allOptions_def matchInVariants_find)
  have none: "(matchedOption p s = None) = (\<forall>opt \<in> set (allOptions p). opt_sku opt \<noteq> s)"
    unfolding eq by (auto simp: find_None_iff)
  have some: "(matchedOption p s = Some opt) =
        (\<exists>i < length (allOptions p). allOptions p ! i = opt \<and> opt_sku opt = s
            \<and> (\<forall>j < i. opt_sku (allOptions p ! j) \<noteq> s))"
    unfolding eq find_Some_iff by auto
  from eq none some show ?thesis by blast
qed

theorem matchedOption_first_match_witness:
  "matchedOption (Some sampleProduct) ''A1'' = Some optA1
   \<and> allOptions (Some sampleProduct) = [optB1, optA1, optA1dup]
   \<and> matchedOption (Some sampleProduct) ''ZZ'' = None
   \<and> matchedOption None ''A1'' = None"
  using matchedOption_first_match [of "Some sampleProduct" "''A1''" optA1]
    matchedOption_first_match [of "Some sampleProduct" "''ZZ''" optA1]
    matchedOption_first_match [of None "''A1''" optA1]
  by (simp add: allOptions_def variantsOrEmpty_def optionsOf_def sampleProduct_def
      optA1_def optA1dup_def optB1_def)

section \<open>Price reconciliation: properties\<close>

text \<open>
  Claim C1.  For every cart item whose stored price is a positive number, the
  reconciliation returns that price unchanged and does not mark the item as
  corrected, whatever the resolver found (\<open>mo\<close> is any outcome of it); the
  price-fixing pass leaves such an item as it is, and an enriched item, when
  the enumeration produces one, carries the stored price.
\<close>

theorem reconcile_positive_price_kept:
  assumes "item_price item = Some p" and "0 < p"
  shows "reconcile item mo = (p, False)
       \<and> fixItem item mo = (item, False)
       \<and> (case enrichItem item of
             Inl err \<Rightarrow> item_product item = None
           | Inr (e, marks) \<Rightarrow> e_price e = p \<and> \<not> marks)"
proof -
  have r: "\<And>mo. reconcile item mo = (p, False)"
    using assms by (simp add: reconcile_def split: option.splits)
  have f: "fixItem item mo = (item, False)"
    using assms by (simp add: fixItem_def priceMissing_def split: option.splits)
  have e: "(case enrichItem item of
             Inl err \<Rightarrow> item_product item = None
           | Inr (e, marks) \<Rightarrow> e_price e = p \<and> \<not> marks)"
    by (simp add: enrichItem_def r Let_def split: option.splits)
  from r f e show ?thesis by simp
qed

theorem reconcile_positive_price_kept_witness:
  "item_price itemA2 = Some 30 \<and> (0::rat) < 30
   \<and> reconcile itemA2 None = (30, False)
   \<and> reconcile itemA2 (Some optA1) = (30, False)
   \<and> fixItem itemA2 (Some optA1) = (itemA2, False)"
  using reconcile_positive_price_kept [of itemA2 30 None]
    reconcile_positive_price_kept [of itemA2 30 "Some optA1"]
  by (simp add: itemA2_def)

text \<open>
  Claim C2.  For every cart item whose stored price is zero or absent: when
  the SKU resolves to an option, the reconciliation returns the option's
  \<open>priceAfterDiscount\<close> if that is present and not zero, otherwise the option's
  \<open>price\<close>, otherwise 0, and marks the item corrected exactly when that
  value is positive; when the SKU does not resolve it returns 0, uncorrected.
  The price-fixing pass computes the same value and stores it exactly when it
  is positive.
\<close>

theorem reconcile_missing_price:
  assumes "item_price item = None \<or> item_price item = Some 0"
  shows "(\<forall>d. opt_priceAfterDiscount opt = Some d \<and> d \<noteq> 0 \<longrightarrow>
            reconcile item (Some opt) = (d, 0 < d))
       \<and> (\<forall>q. (opt_priceAfterDiscount opt = None \<or> opt_priceAfterDiscount opt = Some 0)
               \<and> opt_price opt = Some q \<longrightarrow>
            reconcile item (Some opt) = (q, 0 < q))
       \<and> ((opt_priceAfterDiscount opt = None \<or> opt_priceAfterDiscount opt = Some 0)
               \<and> opt_price opt = None \<longrightarrow>
            reconcile item (Some opt) = (0, False))
       \<and> reconcile item None = (0, False)
       \<and> fixItem item (Some opt) =
           (let v = fst (reconcile item (Some opt))
            in if 0 < v then (item\<lparr>item_price := Some v\<rparr>, True) else (item, False))
       \<and> fixItem item None = (item, False)"
  using assms
  by (auto simp: reconcile_def fixItem_def priceMissing_def optionPriceOrZero_def Let_def
           split: if_splits)

theorem reconcile_missing_price_witness:
  "reconcile itemA1 (Some optA1) = (50, True)
   \<and> reconcile itemA1 (Some optB1) = (70, True)
   \<and> reconcile itemA1 (Some optNoPrice) = (0, False)
   \<and> reconcile itemA1 None = (0, False)
   \<and> fixItem itemA1 (Some optA1) = (itemA1\<lparr>item_price := Some 50\<rparr>, True)
   \<and> reconcile (itemA1\<lparr>item_price := None\<rparr>) (Some optA1dup) = (99, True)"
  using reconcile_missing_price [of itemA1 optA1]
    reconcile_missing_price [of itemA1 optB1]
    reconcile_missing_price [of itemA1 optNoPrice]
    reconcile_missing_price [of "itemA1\<lparr>item_price := None\<rparr>" optA1dup]
  by (simp add: itemA1_def optA1_def optB1_def optNoPrice_def optA1dup_def)

section \<open>Orders: properties\<close>

text \<open>
  Claim C5, as stated, fails: a pending order is not cancelled when the
  request comes from a user who is not its owner; the answer is the 403 error
  and the order stays as it is.
\<close>

theorem cancelOrder_not_owner_counterexample:
  "order_status sampleOrder = ''pending''
   \<and> sampleStore ''o1'' = Some sampleOrder
   \<and> cancelOrder ''bob'' ''o1'' sampleStore =
       (Inl (StatusError 403 ''Not authorized to cancel this order''), sampleStore)"
  by (simp add: cancelOrder_def sampleStore_def sampleOrder_def)

text \<open>
  Claim C5, amended.  For every existing order and a request by its owner,
  cancelling succeeds and sets the status to cancelled if and only if the
  status is pending; in any other status it fails with the 400 error and the
  collection is unchanged.  A request by any other user fails with the 403
  error, whatever the status, and the collection is unchanged.
\<close>

theorem cancelOrder_owner_pending_only:
  assumes "store oid = Some ord"
  shows "(order_user ord = reqUser \<and> order_status ord = ''pending'' \<longrightarrow>
            cancelOrder reqUser oid store =
              (Inr (MessageJson ''Order cancelled successfully''),
               store(oid \<mapsto> ord\<lparr> order_status := ''cancelled'' \<rparr>)))
       \<and> (order_user ord = reqUser \<and> order_status ord \<noteq> ''pending'' \<longrightarrow>
            cancelOrder reqUser oid store =
              (Inl (StatusError 400 ''Can only cancel pending orders''), store))
       \<and> (order_user ord \<noteq> reqUser \<longrightarrow>
            cancelOrder reqUser oid store =
              (Inl (StatusError 403 ''Not authorized to cancel this order''), store))"
  using assms by (simp add: cancelOrder_def saveOrder_def)

theorem cancelOrder_owner_pending_only_witness:
  "cancelOrder ''alice'' ''o1'' sampleStore =
     (Inr (MessageJson ''Order cancelled successfully''),
      sampleStore(''o1'' \<mapsto> sampleOrder\<lparr> order_status := ''cancelled'' \<rparr>))
   \<and> cancelOrder ''alice'' ''o3'' sampleStore =
     (Inl (StatusError 400 ''Can only cancel pending orders''), sampleStore)
   \<and> cancelOrder ''bob'' ''o1'' sampleStore =
     (Inl (StatusError 403 ''Not authorized to cancel this order''), sampleStore)"
proof -
  have s1: "sampleStore ''o1'' = Some sampleOrder"
    by (simp add: sampleStore_def)
  have s3: "sampleStore ''o3'' =
      Some (sampleOrder\<lparr> order_id := ''o3'', order_status := ''processing'' \<rparr>)"
    by (simp add: sampleStore_def)
  show ?thesis
    using cancelOrder_owner_pending_only [of sampleStore "''o1''" sampleOrder "''alice''"]
      cancelOrder_owner_pending_only [of sampleStore "''o3''"
        "sampleOrder\<lparr> order_id := ''o3'', order_status := ''processing'' \<rparr>" "''alice''"]
      cancelOrder_owner_pending_only [of sampleStore "''o1''" sampleOrder "''bob''"]
      s1 s3
    by (simp add: sampleOrder_def)
qed

text \<open>
  Claim C6 at a pending order: \<open>markOrderAsPaid\<close> stores \<open>isPaid\<close>, the paid
  timestamp and \<open>paymentStatus = paid\<close> in one save, but the status stays
  pending, while \<open>updatePaymentStatus\<close> with \<open>paid\<close> and \<open>updateOrderToPaid\<close>
  move the same order to processing.
\<close>

theorem markOrderAsPaid_leaves_status:
  "sampleStore ''o1'' = Some sampleOrder
   \<and> markOrderAsPaid 1000 ''o1'' sampleStore =
       (Inr (OrderJson (sampleOrder\<lparr> order_isPaid := True, order_paidAt := Some 1000,
                                       order_paymentStatus := ''paid'' \<rparr>)),
        sampleStore(''o1'' \<mapsto> sampleOrder\<lparr> order_isPaid := True, order_paidAt := Some 1000,
                                            order_paymentStatus := ''paid'' \<rparr>))
   \<and> statusOf (snd (markOrderAsPaid 1000 ''o1'' sampleStore)) ''o1'' = Some ''pending''
   \<and> statusOf (snd (updatePaymentStatus 1000 ''paid'' ''o1'' sampleStore)) ''o1''
       = Some ''processing''
   \<and> statusOf (snd (updateOrderToPaid ''o1'' sampleStore)) ''o1'' = Some ''processing''"
  by (simp add: markOrderAsPaid_def updatePaymentStatus_def updateOrderToPaid_def
      validPaymentStatuses_def statusOf_def saveOrder_def sampleStore_def sampleOrder_def Let_def)

text \<open>
  Claim C7, as stated, fails: the status update moves a delivered order back
  to pending.
\<close>

theorem updateOrderStatus_leaves_delivered_counterexample:
  "statusOf sampleStore ''o2'' = Some ''delivered''
   \<and> statusOf (snd (updateOrderStatus ''pending'' ''o2'' sampleStore)) ''o2'' = Some ''pending''"
  by (simp add: updateOrderStatus_def statusOf_def saveOrder_def sampleStore_def sampleOrder_def
      Let_def)

text \<open>
  Claim C7, amended.  For every existing order: cancelling is rejected unless
  the status is pending, so it never changes a delivered or cancelled order;
  marking as paid, updating the notes and a payment-status update other than
  \<open>paid\<close> keep the status; the status update sets the status it is given,
  the delivery update sets delivered, and the paid update and a payment-status
  update to \<open>paid\<close> set processing, each whatever the current status is;
  deleting removes the order.
\<close>

theorem status_after_each_operation:
  assumes "store oid = Some ord"
  shows "(order_status ord \<noteq> ''pending'' \<longrightarrow>
            cancelOrder reqUser oid store =
              (Inl (StatusError (if order_user ord = reqUser then 400 else 403)
                      (if order_user ord = reqUser then ''Can only cancel pending orders''
                       else ''Not authorized to cancel this order'')), store))
       \<and> statusOf (snd (markOrderAsPaid now oid store)) oid = Some (order_status ord)
       \<and> statusOf (snd (updateOrderNotes reqUser role notes oid store)) oid
           = Some (order_status ord)
       \<and> (paymentStatus \<noteq> ''paid'' \<longrightarrow>
            statusOf (snd (updatePaymentStatus now paymentStatus oid store)) oid
              = Some (order_status ord))
       \<and> statusOf (snd (updateOrderStatus status oid store)) oid = Some status
       \<and> statusOf (snd (updateOrderToDelivered now oid store)) oid = Some ''delivered''
       \<and> statusOf (snd (updateOrderToPaid oid store)) oid = Some ''processing''
       \<and> statusOf (snd (updatePaymentStatus now ''paid'' oid store)) oid = Some ''processing''
       \<and> statusOf (snd (deleteOrder oid store)) oid = None"
  using assms
  by (simp add: cancelOrder_def markOrderAsPaid_def updateOrderNotes_def updatePaymentStatus_def
      updateOrderStatus_def updateOrderToDelivered_def updateOrderToPaid_def deleteOrder_def
      validPaymentStatuses_def statusOf_def saveOrder_def Let_def)

theorem status_after_each_operation_witness:
  "statusOf sampleStore ''o2'' = Some ''delivered''
   \<and> cancelOrder ''alice'' ''o2'' sampleStore =
       (Inl (StatusError 400 ''Can only cancel pending orders''), sampleStore)
   \<and> statusOf (snd (markOrderAsPaid 1000 ''o2'' sampleStore)) ''o2'' = Some ''delivered''
   \<and> statusOf (snd (updateOrderNotes ''alice'' ''user'' (Some ''ring twice'') ''o2'' sampleStore))
        ''o2'' = Some ''delivered''
   \<and> statusOf (snd (updatePaymentStatus 1000 ''refunded'' ''o2'' sampleStore)) ''o2''
       = Some ''delivered''
   \<and> statusOf (snd (updateOrderStatus ''shipped'' ''o2'' sampleStore)) ''o2'' = Some ''shipped''
   \<and> statusOf (snd (updatePaymentStatus 1000 ''paid'' ''o2'' sampleStore)) ''o2''
       = Some ''processing''"
proof -
  have s2: "sampleStore ''o2'' =
      Some (sampleOrder\<lparr> order_id := ''o2'', order_status := ''delivered'' \<rparr>)"
    by (simp add: sampleStore_def)
  show ?thesis
    using s2
      status_after_each_operation [of sampleStore "''o2''"
        "sampleOrder\<lparr> order_id := ''o2'', order_status := ''delivered'' \<rparr>" "''alice''"
        1000 "''user''" "Some ''ring twice''" "''refunded''" "''shipped''"]
    by (simp add: sampleOrder_def statusOf_def)
qed

text \<open>
  Claim C8 at a status outside the valid set: the status update stores it.
  The handler never consults \<open>validStatuses\<close>.
\<close>

theorem updateOrderStatus_accepts_invalid_status:
  "''returned'' \<notin> set validStatuses
   \<and> sampleStore ''o1'' = Some sampleOrder
   \<and> updateOrderStatus ''returned'' ''o1'' sampleStore =
       (Inr (OrderJson (sampleOrder\<lparr> order_status := ''returned'' \<rparr>)),
        sampleStore(''o1'' \<mapsto> sampleOrder\<lparr> order_status := ''returned'' \<rparr>))"
  by (simp add: updateOrderStatus_def validStatuses_def saveOrder_def sampleStore_def Let_def)

section \<open>Cart enumeration: properties\<close>











section \<open>Order creation: properties\<close>














end
